theory Spec2Isabelle
  imports Complex_Main
begin

section \<open>The ledger store: tables of the schema\<close>

text \<open>
  The five tables of the schema, one record per row type, with the columns the handlers
  and the storage class read or write. A nullable column is an \<open>option\<close>.
  A \<open>decimal(12, 2)\<close> column holds an exact number; it is represented by the integer
  count of its hundredths (the column's precision limit is not represented).
  Timestamps are milliseconds, as \<open>Date.now()\<close> counts them.
  \<open>status\<close>, \<open>role\<close>, \<open>type\<close> and \<open>paymentMethod\<close> are \<open>varchar\<close> columns:
  any string, as in the schema.
\<close>

type_synonym decimal = int
type_synonym timestamp = nat

record user =
  u_id :: string
  u_role :: string
  u_totalContributed :: "decimal option"
  u_currentBalance :: "decimal option"
  u_lastPaymentDate :: "timestamp option"
  u_isActive :: "bool option"

record contribution =
  c_id :: int
  c_userId :: string
  c_amount :: decimal
  c_paymentMethod :: string
  c_status :: string
  c_transactionId :: "string option"
  c_receiptUrl :: "string option"
  c_createdAt :: "timestamp option"
  c_confirmedAt :: "timestamp option"

record treasury =
  t_id :: int
  t_totalBalance :: decimal
  t_totalContributions :: "decimal option"
  t_totalWithdrawals :: "decimal option"
  t_interestEarned :: "decimal option"
  t_updatedAt :: "timestamp option"

record treasuryAdjustment =
  a_id :: int
  a_type :: string
  a_amount :: decimal
  a_reason :: string
  a_adminId :: string
  a_createdAt :: "timestamp option"

record auditLog =
  l_id :: int
  l_action :: string
  l_details :: string
  l_adminId :: string
  l_ipAddress :: "string option"
  l_createdAt :: "timestamp option"

text \<open>
  The database: the rows of each table in insertion order, and the next value of each
  \<open>serial\<close> primary key.
\<close>

record db =
  users :: "user list"
  contributions :: "contribution list"
  treasuryRows :: "treasury list"
  treasuryAdjustments :: "treasuryAdjustment list"
  auditLogs :: "auditLog list"
  contributions_seq :: int
  treasury_seq :: int
  treasuryAdjustments_seq :: int
  auditLogs_seq :: int

text \<open>A statement the database rejects throws; the handlers catch it.\<close>

datatype error = StorageError | ZodError

text \<open>
  The request bodies carry a decimal amount as a string, and the \<open>decimal\<close> column reads
  it. That reading belongs to the platform (PostgreSQL's numeric input, JavaScript's
  \<open>parseFloat\<close>), so it is a parameter of the model: \<open>num s = Some v\<close> when the
  literal \<open>s\<close> denotes \<open>v\<close> hundredths, \<open>None\<close> when the column rejects it.
\<close>

type_synonym numeric = "string \<Rightarrow> decimal option"

section \<open>Printing numbers into strings\<close>

definition digit_char :: "nat \<Rightarrow> char" where
  "digit_char d = ''0123456789'' ! d"

fun show_nat :: "nat \<Rightarrow> string" where
  "show_nat n = (if n < 10 then [digit_char n] else show_nat (n div 10) @ [digit_char (n mod 10)])"

declare show_nat.simps [simp del]

definition show_int :: "int \<Rightarrow> string" where
  "show_int i = (if i < 0 then CHR ''-'' # show_nat (nat (- i)) else show_nat (nat i))"

section \<open>The storage class\<close>

definition getUser :: "string \<Rightarrow> db \<Rightarrow> user option" where
  "getUser uid s = find (\<lambda>u. u_id u = uid) (users s)"

text \<open>
  The foreign key of \<open>contributions.user_id\<close>, \<open>treasury_adjustments.admin_id\<close> and
  \<open>audit_logs.admin_id\<close>: the referenced user row exists.
\<close>

definition references_user :: "string \<Rightarrow> db \<Rightarrow> bool" where
  "references_user uid s = (getUser uid s \<noteq> None)"

text \<open>
  \<open>InsertContribution\<close>: the value \<open>insertContributionSchema\<close> yields. The schema omits
  \<open>id\<close>, \<open>createdAt\<close> and \<open>confirmedAt\<close>; \<open>status\<close> has a column default and
  \<open>transactionId\<close>, \<open>receiptUrl\<close> are nullable, so the three are optional.
\<close>

record insertContribution =
  ic_userId :: string
  ic_amount :: string
  ic_paymentMethod :: string
  ic_status :: "string option"
  ic_transactionId :: "string option"
  ic_receiptUrl :: "string option"

definition createContribution ::
  "numeric \<Rightarrow> timestamp \<Rightarrow> insertContribution \<Rightarrow> db \<Rightarrow> error + (contribution \<times> db)" where
  "createContribution num now v s =
     (case num (ic_amount v) of
        None \<Rightarrow> Inl StorageError
      | Some amt \<Rightarrow>
          if \<not> references_user (ic_userId v) s then Inl StorageError
          else
            let newContribution =
                  \<lparr> c_id = contributions_seq s,
                    c_userId = ic_userId v,
                    c_amount = amt,
                    c_paymentMethod = ic_paymentMethod v,
                    c_status = (case ic_status v of None \<Rightarrow> ''pending'' | Some st \<Rightarrow> st),
                    c_transactionId = ic_transactionId v,
                    c_receiptUrl = ic_receiptUrl v,
                    c_createdAt = Some now,
                    c_confirmedAt = None \<rparr>
            in Inr (newContribution,
                    s\<lparr> contributions := contributions s @ [newContribution],
                       contributions_seq := contributions_seq s + 1 \<rparr>))"

text \<open>
  \<open>updateContributionStatus\<close>: one UPDATE of the rows whose id matches. The
  \<open>transactionId\<close> column is written only when the argument is truthy: present and
  not the empty string.
\<close>

definition set_status :: "timestamp \<Rightarrow> string \<Rightarrow> string option \<Rightarrow> contribution \<Rightarrow> contribution" where
  "set_status now status transactionId c =
     c\<lparr> c_status := status,
        c_confirmedAt := (if status = ''confirmed'' then Some now else None),
        c_transactionId :=
          (case transactionId of
             None \<Rightarrow> c_transactionId c
           | Some t \<Rightarrow> if t = [] then c_transactionId c else Some t) \<rparr>"

definition updateContributionStatus ::
  "timestamp \<Rightarrow> int \<Rightarrow> string \<Rightarrow> string option \<Rightarrow> db \<Rightarrow> db" where
  "updateContributionStatus now cid status transactionId s =
     s\<lparr> contributions :=
          map (\<lambda>c. if c_id c = cid then set_status now status transactionId c else c)
            (contributions s) \<rparr>"

definition getTreasury :: "db \<Rightarrow> treasury option" where
  "getTreasury s = (case treasuryRows s of [] \<Rightarrow> None | t # _ \<Rightarrow> Some t)"

text \<open>
  \<open>Partial<Treasury>\<close>: the keys a caller of \<open>updateTreasury\<close> may give
  (\<open>None\<close>: the key is absent).
\<close>

record partialTreasury =
  pt_totalBalance :: "decimal option"
  pt_totalContributions :: "decimal option"
  pt_totalWithdrawals :: "decimal option"
  pt_interestEarned :: "decimal option"

definition or_else :: "'a option \<Rightarrow> 'a \<Rightarrow> 'a" where
  "or_else x d = (case x of None \<Rightarrow> d | Some v \<Rightarrow> v)"

definition set_treasury :: "timestamp \<Rightarrow> partialTreasury \<Rightarrow> treasury \<Rightarrow> treasury" where
  "set_treasury now d t =
     t\<lparr> t_totalBalance := or_else (pt_totalBalance d) (t_totalBalance t),
        t_totalContributions :=
          (case pt_totalContributions d of None \<Rightarrow> t_totalContributions t | Some v \<Rightarrow> Some v),
        t_totalWithdrawals :=
          (case pt_totalWithdrawals d of None \<Rightarrow> t_totalWithdrawals t | Some v \<Rightarrow> Some v),
        t_interestEarned :=
          (case pt_interestEarned d of None \<Rightarrow> t_interestEarned t | Some v \<Rightarrow> Some v),
        t_updatedAt := Some now \<rparr>"

definition updateTreasury :: "timestamp \<Rightarrow> partialTreasury \<Rightarrow> db \<Rightarrow> db" where
  "updateTreasury now d s =
     (case getTreasury s of
        Some existingTreasury \<Rightarrow>
          s\<lparr> treasuryRows :=
               map (\<lambda>t. if t_id t = t_id existingTreasury then set_treasury now d t else t)
                 (treasuryRows s) \<rparr>
      | None \<Rightarrow>
          s\<lparr> treasuryRows := treasuryRows s @
               [\<lparr> t_id = treasury_seq s,
                  t_totalBalance = or_else (pt_totalBalance d) 0,
                  t_totalContributions = Some (or_else (pt_totalContributions d) 0),
                  t_totalWithdrawals = Some (or_else (pt_totalWithdrawals d) 0),
                  t_interestEarned = Some (or_else (pt_interestEarned d) 0),
                  t_updatedAt = Some now \<rparr>],
             treasury_seq := treasury_seq s + 1 \<rparr>)"



record insertAuditLog =
  il_action :: string
  il_details :: string
  il_adminId :: string
  il_ipAddress :: "string option"

definition createAuditLog :: "timestamp \<Rightarrow> insertAuditLog \<Rightarrow> db \<Rightarrow> error + (auditLog \<times> db)" where
  "createAuditLog now v s =
     (if \<not> references_user (il_adminId v) s then Inl StorageError
      else
        let newLog =
              \<lparr> l_id = auditLogs_seq s,
                l_action = il_action v,
                l_details = il_details v,
                l_adminId = il_adminId v,
                l_ipAddress = il_ipAddress v,
                l_createdAt = Some now \<rparr>
        in Inr (newLog,
                s\<lparr> auditLogs := auditLogs s @ [newLog],
                   auditLogs_seq := auditLogs_seq s + 1 \<rparr>))"

subsection \<open>Statistics\<close>




section \<open>The route handlers\<close>

text \<open>
  A handler answers with JSON (status 200) or with one of the failure statuses the
  routes send: 401, 403, 500. It returns the database as its statements left it: every
  storage call commits on its own, nothing is rolled back when a later one throws.
\<close>

datatype 'a response = Json 'a | Status401 | Status403 | Status500

text \<open>
  Modelled from the spec: \<open>isAuthenticated\<close> (\<open>./replitAuth\<close> is not among the sources).
  The authentication layer hands every call a verified actor id, the \<open>claims.sub\<close> of
  the session; a call without a session is answered 401 before the handler runs.
  The argument \<open>auth\<close> is that id, \<open>None\<close> without a session.
\<close>

definition isAuthenticated ::
  "string option \<Rightarrow> db \<Rightarrow> (string \<Rightarrow> 'a response \<times> db) \<Rightarrow> 'a response \<times> db" where
  [simp]: "isAuthenticated auth s handler =
     (case auth of None \<Rightarrow> (Status401, s) | Some sub \<Rightarrow> handler sub)"

text \<open>\<open>user?.role !== 'admin'\<close>\<close>

definition not_admin :: "user option \<Rightarrow> bool" where
  "not_admin user = (case user of None \<Rightarrow> True | Some u \<Rightarrow> u_role u \<noteq> ''admin'')"

subsection \<open>POST /api/contributions\<close>

text \<open>
  The JSON body of the request; a field is \<open>None\<close> when it is absent (for the two
  required fields also when it is not a string, which the schema rejects the same way).
\<close>

record contribution_body =
  b_amount :: "string option"
  b_paymentMethod :: "string option"
  b_status :: "string option"
  b_transactionId :: "string option"
  b_receiptUrl :: "string option"

definition insertContributionSchema_parse ::
  "string \<Rightarrow> contribution_body \<Rightarrow> error + insertContribution" where
  "insertContributionSchema_parse userId body =
     (case (b_amount body, b_paymentMethod body) of
        (Some amount, Some paymentMethod) \<Rightarrow>
          Inr \<lparr> ic_userId = userId,
                ic_amount = amount,
                ic_paymentMethod = paymentMethod,
                ic_status = b_status body,
                ic_transactionId = b_transactionId body,
                ic_receiptUrl = b_receiptUrl body \<rparr>
      | _ \<Rightarrow> Inl ZodError)"

definition post_contributions ::
  "numeric \<Rightarrow> timestamp \<Rightarrow> string option \<Rightarrow> string option \<Rightarrow> contribution_body \<Rightarrow> db
     \<Rightarrow> contribution response \<times> db" where
  "post_contributions num now auth ip body s =
     isAuthenticated auth s (\<lambda>userId.
          (case insertContributionSchema_parse userId body of
             Inl e \<Rightarrow> (Status500, s)
           | Inr validatedData \<Rightarrow>
               (case createContribution num now validatedData s of
                  Inl e \<Rightarrow> (Status500, s)
                | Inr (contribution, s1) \<Rightarrow>
                    (case createAuditLog now
                            \<lparr> il_action = ''Payment Initiated'',
                              il_details = ''User initiated payment of UGX '' @ ic_amount validatedData
                                @ '' via '' @ ic_paymentMethod validatedData,
                              il_adminId = userId,
                              il_ipAddress = ip \<rparr> s1 of
                       Inl e \<Rightarrow> (Status500, s1)
                     | Inr (l, s2) \<Rightarrow> (Json contribution, s2)))))"

subsection \<open>PATCH /api/contributions/:id/status\<close>

text \<open>
  \<open>cid\<close> is the number \<open>parseInt\<close> reads from the path; \<open>status\<close> and
  \<open>transactionId\<close> are taken from the body as they come.
\<close>

record status_body =
  sb_status :: string
  sb_transactionId :: "string option"

definition patch_contribution_status ::
  "timestamp \<Rightarrow> string option \<Rightarrow> string option \<Rightarrow> int \<Rightarrow> status_body \<Rightarrow> db
     \<Rightarrow> unit response \<times> db" where
  "patch_contribution_status now auth ip contributionId body s =
     isAuthenticated auth s (\<lambda>sub.
          if not_admin (getUser sub s) then (Status403, s)
          else
            let s1 = updateContributionStatus now contributionId (sb_status body)
                       (sb_transactionId body) s
            in (case createAuditLog now
                       \<lparr> il_action = ''Payment Status Updated'',
                         il_details = ''Updated contribution '' @ show_int contributionId
                           @ '' status to '' @ sb_status body,
                         il_adminId = sub,
                         il_ipAddress = ip \<rparr> s1 of
                  Inl e \<Rightarrow> (Status500, s1)
                | Inr (l, s2) \<Rightarrow> (Json (), s2)))"

subsection \<open>POST /api/treasury/adjust\<close>






subsection \<open>POST /api/payments/simulate\<close>

record simulate_body =
  sim_contributionId :: int
  sim_success :: bool

definition post_payments_simulate ::
  "timestamp \<Rightarrow> string option \<Rightarrow> simulate_body \<Rightarrow> db \<Rightarrow> (bool \<times> string option) response \<times> db" where
  "post_payments_simulate now auth body s =
     isAuthenticated auth s (\<lambda>sub.
          let status = (if sim_success body then ''confirmed'' else ''failed'');
              transactionId = (if sim_success body then Some (''TXN'' @ show_nat now) else None);
              s1 = updateContributionStatus now (sim_contributionId body) status transactionId s
          in (Json (sim_success body, transactionId), s1))"

section \<open>The system as a sequence of calls\<close>





definition empty_ledger :: "user list \<Rightarrow> db" where
  "empty_ledger us =
     \<lparr> users = us, contributions = [], treasuryRows = [], treasuryAdjustments = [],
       auditLogs = [], contributions_seq = 1, treasury_seq = 1,
       treasuryAdjustments_seq = 1, auditLogs_seq = 1 \<rparr>"

text \<open>The balance a reader of the treasury sees: that of the row, zero without one.\<close>

definition totalBalance :: "db \<Rightarrow> decimal" where
  "totalBalance s = (case getTreasury s of None \<Rightarrow> 0 | Some t \<Rightarrow> t_totalBalance t)"




text \<open>What a reader of the treasury sees in the other counters (zero when absent or null).\<close>

definition totalContributions :: "db \<Rightarrow> decimal" where
  "totalContributions s =
     (case getTreasury s of None \<Rightarrow> 0 | Some t \<Rightarrow> or_else (t_totalContributions t) 0)"




section \<open>Sample data\<close>

text \<open>
  The data of the specification's scenarios: an administrator A1, a member M1, and a
  reading of the decimal literals the scenarios use (in hundredths).
\<close>

definition sample_num :: numeric where
  "sample_num lit =
     (if lit = ''50000'' then Some 5000000
      else if lit = ''10000'' then Some 1000000
      else if lit = ''-5'' then Some (- 500)
      else if lit = ''0'' then Some 0
      else None)"

definition admin_A1 :: user where
  "admin_A1 = \<lparr> u_id = ''A1'', u_role = ''admin'', u_totalContributed = Some 0,
                u_currentBalance = Some 0, u_lastPaymentDate = None, u_isActive = Some True \<rparr>"

definition member_M1 :: user where
  "member_M1 = \<lparr> u_id = ''M1'', u_role = ''member'', u_totalContributed = Some 0,
                 u_currentBalance = Some 0, u_lastPaymentDate = None, u_isActive = Some True \<rparr>"

definition contribution_C1 :: "string \<Rightarrow> timestamp option \<Rightarrow> contribution" where
  "contribution_C1 status confirmedAt =
     \<lparr> c_id = 1, c_userId = ''M1'', c_amount = 5000000, c_paymentMethod = ''mtn'',
       c_status = status, c_transactionId = None, c_receiptUrl = None,
       c_createdAt = Some 1000, c_confirmedAt = confirmedAt \<rparr>"

text \<open>The ledger after M1 has submitted C1, with C1 in the given status.\<close>

definition ledger_C1 :: "string \<Rightarrow> timestamp option \<Rightarrow> db" where
  "ledger_C1 status confirmedAt =
     (empty_ledger [admin_A1, member_M1])
       \<lparr> contributions := [contribution_C1 status confirmedAt], contributions_seq := 2 \<rparr>"



definition body_mtn_50000 :: "string option \<Rightarrow> contribution_body" where
  "body_mtn_50000 status =
     \<lparr> b_amount = Some ''50000'', b_paymentMethod = Some ''mtn'', b_status = status,
       b_transactionId = None, b_receiptUrl = None \<rparr>"

section \<open>Status updates\<close>

lemma set_status_id [simp]: "c_id (set_status now st tx c) = c_id c"
  by (simp add: set_status_def)

lemma updateContributionStatus_other_tables [simp]:
  "users (updateContributionStatus now cid st tx s) = users s"
  "treasuryRows (updateContributionStatus now cid st tx s) = treasuryRows s"
  "treasuryAdjustments (updateContributionStatus now cid st tx s) = treasuryAdjustments s"
  "auditLogs (updateContributionStatus now cid st tx s) = auditLogs s"
  "auditLogs_seq (updateContributionStatus now cid st tx s) = auditLogs_seq s"
  by (simp_all add: updateContributionStatus_def)

text \<open>
  C10. \<open>updateContributionStatus\<close> writes, into every row with the given id, the target
  status, and \<open>confirmedAt\<close>: the current time when the target is \<open>confirmed\<close>, null for
  any other target. So after the update the row has a \<open>confirmedAt\<close> exactly when its
  status is \<open>confirmed\<close>; a confirmed row updated to \<open>failed\<close> loses its timestamp.
\<close>

theorem updateContributionStatus_confirmedAt:
  assumes "i < length (contributions s)" and "c_id (contributions s ! i) = cid"
  shows "let c' = contributions (updateContributionStatus now cid status txn s) ! i
         in c_id c' = cid \<and> c_status c' = status \<and>
            c_confirmedAt c' = (if status = ''confirmed'' then Some now else None) \<and>
            (c_confirmedAt c' \<noteq> None \<longleftrightarrow> c_status c' = ''confirmed'')"
  using assms by (simp add: updateContributionStatus_def set_status_def)

theorem updateContributionStatus_confirmedAt_witness:
  "let s = ledger_C1 ''confirmed'' (Some 2000);
       c' = contributions (updateContributionStatus 3000 1 ''failed'' None s) ! 0
   in c_confirmedAt (contributions s ! 0) = Some 2000 \<and> c_id c' = 1 \<and>
      c_status c' = ''failed'' \<and> c_confirmedAt c' = None"
  using updateContributionStatus_confirmedAt
          [of 0 "ledger_C1 ''confirmed'' (Some 2000)" 1 3000 "''failed''" None]
  by (simp add: ledger_C1_def contribution_C1_def empty_ledger_def Let_def)

section \<open>The payment simulation\<close>

text \<open>
  C9. \<open>POST /api/payments/simulate\<close> performs the status update for any authenticated
  caller, whatever the caller's role (the handler never reads it): on success the
  contribution becomes \<open>confirmed\<close> with the generated transaction id \<open>TXN<now>\<close>, on
  failure it becomes \<open>failed\<close> and no transaction id is written. The same caller, when
  not an administrator, is answered 403 by the status route, which changes nothing.
\<close>

theorem post_payments_simulate_any_role:
  assumes "i < length (contributions s)"
    and "c_id (contributions s ! i) = sim_contributionId body"
  shows "(case post_payments_simulate now (Some sub) body s of
            (Json (ok, txn), s') \<Rightarrow>
              (let c = contributions s ! i; c' = contributions s' ! i
               in ok = sim_success body \<and>
                  (if sim_success body
                   then txn = Some (''TXN'' @ show_nat now) \<and> c_status c' = ''confirmed'' \<and>
                        c_transactionId c' = txn \<and> c_confirmedAt c' = Some now
                   else txn = None \<and> c_status c' = ''failed'' \<and>
                        c_transactionId c' = c_transactionId c \<and> c_confirmedAt c' = None))
          | _ \<Rightarrow> False) \<and>
         (not_admin (getUser sub s) \<longrightarrow>
            patch_contribution_status now (Some sub) ip cid sbody s = (Status403, s))"
  using assms
  by (simp add: post_payments_simulate_def patch_contribution_status_def
        updateContributionStatus_def set_status_def Let_def)

theorem post_payments_simulate_any_role_witness:
  "not_admin (getUser ''M1'' (ledger_C1 ''pending'' None)) \<and>
   fst (post_payments_simulate 3000 (Some ''M1'')
          \<lparr> sim_contributionId = 1, sim_success = True \<rparr> (ledger_C1 ''pending'' None))
     = Json (True, Some (''TXN'' @ show_nat 3000)) \<and>
   map c_status (contributions (snd (post_payments_simulate 3000 (Some ''M1'')
          \<lparr> sim_contributionId = 1, sim_success = True \<rparr> (ledger_C1 ''pending'' None))))
     = [''confirmed''] \<and>
   fst (patch_contribution_status 3000 (Some ''M1'') None 1
          \<lparr> sb_status = ''confirmed'', sb_transactionId = None \<rparr> (ledger_C1 ''pending'' None))
     = Status403"
  using post_payments_simulate_any_role
          [of 0 "ledger_C1 ''pending'' None" "\<lparr> sim_contributionId = 1, sim_success = True \<rparr>"
              3000 "''M1''" None 1 "\<lparr> sb_status = ''confirmed'', sb_transactionId = None \<rparr>"]
  by (simp add: ledger_C1_def contribution_C1_def empty_ledger_def Let_def
        post_payments_simulate_def patch_contribution_status_def not_admin_def getUser_def
        admin_A1_def member_M1_def updateContributionStatus_def set_status_def)

section \<open>Statistics\<close>








section \<open>The status route\<close>

lemma getUser_updateContributionStatus [simp]:
  "getUser uid (updateContributionStatus now cid st tx s) = getUser uid s"
  by (simp add: getUser_def)

lemma createAuditLog_ok:
  "getUser (il_adminId v) s = Some u \<Longrightarrow>
   createAuditLog now v s =
     Inr (\<lparr> l_id = auditLogs_seq s, l_action = il_action v, l_details = il_details v,
            l_adminId = il_adminId v, l_ipAddress = il_ipAddress v, l_createdAt = Some now \<rparr>,
          s\<lparr> auditLogs := auditLogs s @
                [\<lparr> l_id = auditLogs_seq s, l_action = il_action v, l_details = il_details v,
                   l_adminId = il_adminId v, l_ipAddress = il_ipAddress v,
                   l_createdAt = Some now \<rparr>],
             auditLogs_seq := auditLogs_seq s + 1 \<rparr>)"
  by (simp add: createAuditLog_def references_user_def Let_def)

lemma patch_contribution_status_admin:
  assumes "getUser sub s = Some u" and "u_role u = ''admin''"
  shows "patch_contribution_status now (Some sub) ip cid body s =
           (Json (),
            (updateContributionStatus now cid (sb_status body) (sb_transactionId body) s)
              \<lparr> auditLogs := auditLogs s @
                   [\<lparr> l_id = auditLogs_seq s, l_action = ''Payment Status Updated'',
                      l_details = ''Updated contribution '' @ show_int cid @ '' status to ''
                        @ sb_status body,
                      l_adminId = sub, l_ipAddress = ip, l_createdAt = Some now \<rparr>],
                 auditLogs_seq := auditLogs_seq s + 1 \<rparr>)"
  using assms
  by (simp add: patch_contribution_status_def not_admin_def Let_def createAuditLog_ok [where u = u])


text \<open>
  C1, as the code has it. A transition to \<open>confirmed\<close> through the status route, by an
  administrator, sets the contribution's status to \<open>confirmed\<close> and its \<open>confirmedAt\<close>
  to the current time, keeps its amount, and appends one audit entry
  \<open>Payment Status Updated\<close>. It writes neither the users table nor the treasury: the
  owning member's \<open>totalContributed\<close>, \<open>currentBalance\<close> and \<open>lastPaymentDate\<close> and
  the treasury's \<open>totalBalance\<close> and \<open>totalContributions\<close> are what they were.
  The payment simulation, the other route that confirms, leaves both tables alone too.
\<close>

theorem patch_confirmed_leaves_balances:
  assumes "getUser sub s = Some u" and "u_role u = ''admin''"
    and "i < length (contributions s)" and "c_id (contributions s ! i) = cid"
    and "sb_status body = ''confirmed''"
  shows "(case patch_contribution_status now (Some sub) ip cid body s of
            (Json _, s') \<Rightarrow>
              c_status (contributions s' ! i) = ''confirmed'' \<and>
              c_confirmedAt (contributions s' ! i) = Some now \<and>
              c_amount (contributions s' ! i) = c_amount (contributions s ! i) \<and>
              users s' = users s \<and>
              treasuryRows s' = treasuryRows s \<and>
              map l_action (auditLogs s') = map l_action (auditLogs s) @ [''Payment Status Updated'']
          | _ \<Rightarrow> False) \<and>
         users (snd (post_payments_simulate now auth mbody s)) = users s \<and>
         treasuryRows (snd (post_payments_simulate now auth mbody s)) = treasuryRows s"
  using assms(3-5)
  by (simp add: patch_contribution_status_admin [OF assms(1,2)]
        updateContributionStatus_def set_status_def post_payments_simulate_def Let_def
      split: option.splits)

text \<open>
  C3, as the code has it. The status route has no guard on the current status: for a
  contribution that is already \<open>confirmed\<close> or \<open>failed\<close>, a further transition by an
  administrator is answered 200, overwrites the status with the requested one, sets
  \<open>confirmedAt\<close> to the current time for \<open>confirmed\<close> and to null otherwise, and
  appends one audit entry \<open>Payment Status Updated\<close>; the users table and the treasury
  are unchanged.
\<close>

theorem patch_terminal_overwrites:
  assumes "getUser sub s = Some u" and "u_role u = ''admin''"
    and "i < length (contributions s)" and "c_id (contributions s ! i) = cid"
    and "c_status (contributions s ! i) = ''confirmed'' \<or> c_status (contributions s ! i) = ''failed''"
  shows "(case patch_contribution_status now (Some sub) ip cid body s of
            (Json _, s') \<Rightarrow>
              c_status (contributions s' ! i) = sb_status body \<and>
              c_confirmedAt (contributions s' ! i) =
                (if sb_status body = ''confirmed'' then Some now else None) \<and>
              users s' = users s \<and>
              treasuryRows s' = treasuryRows s \<and>
              map l_action (auditLogs s') = map l_action (auditLogs s) @ [''Payment Status Updated'']
          | _ \<Rightarrow> False)"
  using assms(3-5)
  by (simp add: patch_contribution_status_admin [OF assms(1,2)]
        updateContributionStatus_def set_status_def)


lemmas sample_defs = ledger_C1_def contribution_C1_def empty_ledger_def admin_A1_def member_M1_def
  getUser_def

theorem patch_confirmed_leaves_balances_witness:
  "(let s = ledger_C1 ''pending'' None;
        r = patch_contribution_status 3000 (Some ''A1'') None 1
              \<lparr> sb_status = ''confirmed'', sb_transactionId = Some ''TXN1'' \<rparr> s
    in getUser ''A1'' s = Some admin_A1 \<and> u_role admin_A1 = ''admin'' \<and>
       c_id (contributions s ! 0) = 1 \<and>
       fst r = Json () \<and>
       map c_status (contributions (snd r)) = [''confirmed''] \<and>
       map c_confirmedAt (contributions (snd r)) = [Some 3000] \<and>
       users (snd r) = users s \<and> treasuryRows (snd r) = treasuryRows s \<and>
       map l_action (auditLogs (snd r)) = [''Payment Status Updated''] \<and>
       users (snd (post_payments_simulate 3000 (Some ''M1'')
                     \<lparr> sim_contributionId = 1, sim_success = True \<rparr> s)) = users s)"
  using patch_confirmed_leaves_balances
          [where sub = "''A1''" and s = "ledger_C1 ''pending'' None" and u = admin_A1 and i = 0
             and cid = 1 and now = 3000 and ip = None
             and body = "\<lparr> sb_status = ''confirmed'', sb_transactionId = Some ''TXN1'' \<rparr>"
             and auth = "Some ''M1''"
             and mbody = "\<lparr> sim_contributionId = 1, sim_success = True \<rparr>"]
  by (simp add: sample_defs Let_def patch_contribution_status_def not_admin_def
        createAuditLog_def references_user_def updateContributionStatus_def set_status_def
        post_payments_simulate_def)

text \<open>
  Scenario A of the specification, at its second step: C1 of 50000 is confirmed, and the
  member M1 and the treasury hold what they held before.
\<close>

theorem patch_confirmed_increments_counterexample:
  "(let s = ledger_C1 ''pending'' None;
        r = patch_contribution_status 3000 (Some ''A1'') None 1
              \<lparr> sb_status = ''confirmed'', sb_transactionId = Some ''TXN1'' \<rparr> s;
        s' = snd r
    in fst r = Json () \<and>
       map c_status (contributions s') = [''confirmed''] \<and>
       map c_amount (contributions s') = [5000000] \<and>
       map_option u_totalContributed (getUser ''M1'' s) = Some (Some 0) \<and>
       map_option u_totalContributed (getUser ''M1'' s') \<noteq> Some (Some (0 + 5000000)) \<and>
       map_option u_currentBalance (getUser ''M1'' s') \<noteq> Some (Some (0 + 5000000)) \<and>
       map_option u_lastPaymentDate (getUser ''M1'' s') \<noteq> Some (Some 3000) \<and>
       totalBalance s = 0 \<and>
       totalBalance s' \<noteq> 0 + 5000000 \<and>
       totalContributions s' \<noteq> 0 + 5000000)"
  by (simp add: sample_defs Let_def patch_contribution_status_def not_admin_def
        createAuditLog_def references_user_def updateContributionStatus_def set_status_def
        totalBalance_def totalContributions_def getTreasury_def)


theorem patch_terminal_overwrites_witness:
  "(let s = ledger_C1 ''failed'' None;
        r = patch_contribution_status 3000 (Some ''A1'') None 1
              \<lparr> sb_status = ''confirmed'', sb_transactionId = None \<rparr> s
    in getUser ''A1'' s = Some admin_A1 \<and> u_role admin_A1 = ''admin'' \<and>
       map c_id (contributions s) = [1] \<and> map c_status (contributions s) = [''failed''] \<and>
       fst r = Json () \<and>
       map c_status (contributions (snd r)) = [''confirmed''] \<and>
       map c_confirmedAt (contributions (snd r)) = [Some 3000] \<and>
       users (snd r) = users s \<and> treasuryRows (snd r) = treasuryRows s \<and>
       map l_action (auditLogs (snd r)) = [''Payment Status Updated''])"
  using patch_terminal_overwrites
          [where sub = "''A1''" and s = "ledger_C1 ''failed'' None" and u = admin_A1 and i = 0
             and cid = 1 and now = 3000 and ip = None
             and body = "\<lparr> sb_status = ''confirmed'', sb_transactionId = None \<rparr>"]
  by (simp add: sample_defs Let_def patch_contribution_status_def not_admin_def
        createAuditLog_def references_user_def updateContributionStatus_def set_status_def)

text \<open>
  Scenario D of the specification: C1 is confirmed and is then transitioned to
  \<open>failed\<close>. The call succeeds, the status is overwritten and the timestamp erased.
\<close>

theorem patch_terminal_rejected_counterexample:
  "(let s = ledger_C1 ''confirmed'' (Some 2000);
        r = patch_contribution_status 3000 (Some ''A1'') None 1
              \<lparr> sb_status = ''failed'', sb_transactionId = None \<rparr> s
    in map c_status (contributions s) = [''confirmed''] \<and>
       map c_confirmedAt (contributions s) = [Some 2000] \<and>
       fst r = Json () \<and>
       fst r \<noteq> Status500 \<and>
       contributions (snd r) \<noteq> contributions s \<and>
       map c_status (contributions (snd r)) = [''failed''] \<and>
       map c_confirmedAt (contributions (snd r)) = [None] \<and>
       auditLogs (snd r) \<noteq> auditLogs s)"
  by (simp add: sample_defs Let_def patch_contribution_status_def not_admin_def
        createAuditLog_def references_user_def updateContributionStatus_def set_status_def)



section \<open>The adjustment route\<close>

lemma updateTreasury_other_tables [simp]:
  "users (updateTreasury now d s) = users s"
  "contributions (updateTreasury now d s) = contributions s"
  "treasuryAdjustments (updateTreasury now d s) = treasuryAdjustments s"
  "auditLogs (updateTreasury now d s) = auditLogs s"
  "auditLogs_seq (updateTreasury now d s) = auditLogs_seq s"
  by (simp_all add: updateTreasury_def split: option.splits)

lemma getUser_updateTreasury [simp]: "getUser uid (updateTreasury now d s) = getUser uid s"
  by (simp add: getUser_def)



lemma getTreasury_adjustments [simp]:
  "getTreasury (s\<lparr> treasuryAdjustments := xs, treasuryAdjustments_seq := n \<rparr>) = getTreasury s"
  "getTreasury (s\<lparr> auditLogs := ys, auditLogs_seq := m \<rparr>) = getTreasury s"
  by (simp_all add: getTreasury_def)









section \<open>The submission route\<close>

lemma post_contributions_accepted:
  assumes "getUser uid s = Some u"
    and "b_amount body = Some a" and "b_paymentMethod body = Some m" and "num a = Some A"
  shows "post_contributions num now (Some uid) ip body s =
           (let c = \<lparr> c_id = contributions_seq s, c_userId = uid, c_amount = A,
                      c_paymentMethod = m,
                      c_status = (case b_status body of None \<Rightarrow> ''pending'' | Some st \<Rightarrow> st),
                      c_transactionId = b_transactionId body, c_receiptUrl = b_receiptUrl body,
                      c_createdAt = Some now, c_confirmedAt = None \<rparr>
            in (Json c,
                s\<lparr> contributions := contributions s @ [c],
                   contributions_seq := contributions_seq s + 1,
                   auditLogs := auditLogs s @
                     [\<lparr> l_id = auditLogs_seq s, l_action = ''Payment Initiated'',
                        l_details = ''User initiated payment of UGX '' @ a @ '' via '' @ m,
                        l_adminId = uid, l_ipAddress = ip, l_createdAt = Some now \<rparr>],
                   auditLogs_seq := auditLogs_seq s + 1 \<rparr>))"
proof -
  have u1: "getUser uid (s\<lparr> contributions := xs, contributions_seq := n \<rparr>) = Some u"
    for xs n using assms(1) by (simp add: getUser_def)
  show ?thesis
    using assms
    by (simp add: post_contributions_def insertContributionSchema_parse_def
        createContribution_def references_user_def Let_def createAuditLog_def u1)
qed

text \<open>
  C6, as the code has it. The schema lets the body carry a \<open>status\<close>, and the row takes
  it; the column default \<open>pending\<close> applies only without one. For every accepted
  submission whose body carries no status, or the status \<open>pending\<close> (what the member
  dashboard sends), the newly created contribution has status \<open>pending\<close> and
  \<open>confirmedAt\<close> null, and exactly one audit entry, with action \<open>Payment Initiated\<close>,
  is recorded before the handler answers.
\<close>

theorem post_contributions_pending:
  assumes "getUser uid s = Some u"
    and "b_amount body = Some a" and "b_paymentMethod body = Some m" and "num a = Some A"
    and "b_status body = None \<or> b_status body = Some ''pending''"
  shows "(case post_contributions num now (Some uid) ip body s of
            (Json c, s') \<Rightarrow>
              c_status c = ''pending'' \<and> c_confirmedAt c = None \<and>
              c_userId c = uid \<and> c_amount c = A \<and> c_paymentMethod c = m \<and>
              contributions s' = contributions s @ [c] \<and>
              map l_action (auditLogs s') = map l_action (auditLogs s) @ [''Payment Initiated'']
          | _ \<Rightarrow> False)"
  using assms(5)
  by (auto simp: post_contributions_accepted [where num = num, OF assms(1-4)] Let_def)

lemmas submit_eval = post_contributions_def insertContributionSchema_parse_def
  createContribution_def references_user_def createAuditLog_def body_mtn_50000_def
  sample_num_def empty_ledger_def admin_A1_def member_M1_def getUser_def

theorem post_contributions_pending_witness:
  "(let s = empty_ledger [admin_A1, member_M1];
        r = post_contributions sample_num 1000 (Some ''M1'') None (body_mtn_50000 (Some ''pending'')) s
    in getUser ''M1'' s = Some member_M1 \<and> sample_num ''50000'' = Some 5000000 \<and>
       fst r = Json (contribution_C1 ''pending'' None) \<and>
       contributions (snd r) = [contribution_C1 ''pending'' None] \<and>
       map l_action (auditLogs (snd r)) = [''Payment Initiated''])"
  using post_contributions_pending
          [where uid = "''M1''" and s = "empty_ledger [admin_A1, member_M1]" and u = member_M1
             and num = sample_num and now = 1000 and ip = None and a = "''50000''"
             and m = "''mtn''" and A = 5000000 and body = "body_mtn_50000 (Some ''pending'')"]
  by (simp add: submit_eval contribution_C1_def Let_def)

text \<open>
  A submission the schema accepts whose body carries \<open>status: confirmed\<close>: the
  contribution is created confirmed (and with no \<open>confirmedAt\<close>).
\<close>

theorem post_contributions_status_counterexample:
  "(let s = empty_ledger [admin_A1, member_M1];
        r = post_contributions sample_num 1000 (Some ''M1'') None (body_mtn_50000 (Some ''confirmed'')) s
    in fst r = Json (contribution_C1 ''confirmed'' None) \<and>
       c_status (contribution_C1 ''confirmed'' None) \<noteq> ''pending'' \<and>
       map c_status (contributions (snd r)) = [''confirmed''] \<and>
       map c_confirmedAt (contributions (snd r)) = [None])"
  by (simp add: submit_eval contribution_C1_def Let_def)

section \<open>The balance invariant\<close>












end
